theory Spec2Isabelle
  imports Main
begin

section \<open>The declaration script \<^verbatim>\<open>Infra/__main__.py\<close>\<close>

text \<open>
  The script is straight-line code: it calls one resource constructor of the provider
  library after the other, top to bottom, and ends with four \<^verbatim>\<open>pulumi.export\<close> calls.
  A constructor registers the resource under its logical name. The script has no
  function, no branch, no loop and no \<^verbatim>\<open>raise\<close> of its own; its only input is the
  process environment, read once by \<^verbatim>\<open>os.getenv("PUBLIC_KEY")\<close>.
\<close>

subsection \<open>Data\<close>

text \<open>
  An attribute of a declared resource that is known only once the resource exists
  (\<^verbatim>\<open>vpc.id\<close>, \<^verbatim>\<open>key_pair.key_name\<close>, \<^verbatim>\<open>master_instance.private_ip\<close>): the logical name
  of the resource and the attribute read from it.
\<close>

datatype output_ref = Out string string

text \<open>One entry of \<^verbatim>\<open>routes=[{...}]\<close>: \<^verbatim>\<open>cidr_block\<close>, \<^verbatim>\<open>gateway_id\<close>, \<^verbatim>\<open>nat_gateway_id\<close>
  (a key the dict does not have is \<open>None\<close>).\<close>

datatype route = Route string "output_ref option" "output_ref option"

text \<open>One entry of \<^verbatim>\<open>ingress=[...]\<close> or \<^verbatim>\<open>egress=[...]\<close>: \<^verbatim>\<open>protocol\<close>, \<^verbatim>\<open>from_port\<close>,
  \<^verbatim>\<open>to_port\<close>, \<^verbatim>\<open>cidr_blocks\<close>.\<close>

datatype sg_rule = Rule string int int "string list"

text \<open>
  A constructor call with the keyword arguments the script gives, in this order:
  \<^item> \<open>Vpc name cidr_block enable_dns_hostnames enable_dns_support\<close>
  \<^item> \<open>Subnet name vpc_id cidr_block map_public_ip_on_launch availability_zone\<close>
  \<^item> \<open>InternetGateway name vpc_id\<close>
  \<^item> \<open>RouteTable name vpc_id routes\<close>
  \<^item> \<open>RouteTableAssociation name subnet_id route_table_id\<close>
  \<^item> \<open>Eip name vpc\<close>
  \<^item> \<open>NatGateway name subnet_id allocation_id\<close>
  \<^item> \<open>SecurityGroup name description vpc_id ingress egress\<close>
  \<^item> \<open>KeyPair name key_name public_key\<close> (\<^verbatim>\<open>os.getenv\<close> gives \<^verbatim>\<open>None\<close> for an unset
    variable, hence the option)
  \<^item> \<open>Instance name instance_type ami subnet_id vpc_security_group_ids key_name tags\<close>
\<close>

datatype resource =
    Vpc string string bool bool
  | Subnet string output_ref string bool string
  | InternetGateway string output_ref
  | RouteTable string output_ref "route list"
  | RouteTableAssociation string output_ref output_ref
  | Eip string bool
  | NatGateway string output_ref output_ref
  | SecurityGroup string string output_ref "sg_rule list" "sg_rule list"
  | KeyPair string string "string option"
  | Instance string string string output_ref "output_ref list" output_ref "(string \<times> string) list"

fun rname :: "resource \<Rightarrow> string" where
  "rname (Vpc n _ _ _) = n"
| "rname (Subnet n _ _ _ _) = n"
| "rname (InternetGateway n _) = n"
| "rname (RouteTable n _ _) = n"
| "rname (RouteTableAssociation n _ _) = n"
| "rname (Eip n _) = n"
| "rname (NatGateway n _ _) = n"
| "rname (SecurityGroup n _ _ _ _) = n"
| "rname (KeyPair n _ _) = n"
| "rname (Instance n _ _ _ _ _ _) = n"

text \<open>\<^verbatim>\<open>r.id\<close> and \<^verbatim>\<open>r.key_name\<close> of a resource bound to a Python variable.\<close>

definition id_of :: "resource \<Rightarrow> output_ref" where
  "id_of r = Out (rname r) ''id''"

definition key_name_of :: "resource \<Rightarrow> output_ref" where
  "key_name_of r = Out (rname r) ''key_name''"

definition public_ip_of :: "resource \<Rightarrow> output_ref" where
  "public_ip_of r = Out (rname r) ''public_ip''"

definition private_ip_of :: "resource \<Rightarrow> output_ref" where
  "private_ip_of r = Out (rname r) ''private_ip''"

fun out_name :: "output_ref \<Rightarrow> string" where
  "out_name (Out n _) = n"

fun route_targets :: "route \<Rightarrow> string list" where
  "route_targets (Route _ g n) =
     (case g of None \<Rightarrow> [] | Some x \<Rightarrow> [out_name x]) @ (case n of None \<Rightarrow> [] | Some x \<Rightarrow> [out_name x])"

text \<open>The logical names of the resources whose attributes a constructor call is given.\<close>

fun refs :: "resource \<Rightarrow> string list" where
  "refs (Vpc _ _ _ _) = []"
| "refs (Subnet _ v _ _ _) = [out_name v]"
| "refs (InternetGateway _ v) = [out_name v]"
| "refs (RouteTable _ v rs) = out_name v # concat (map route_targets rs)"
| "refs (RouteTableAssociation _ s t) = [out_name s, out_name t]"
| "refs (Eip _ _) = []"
| "refs (NatGateway _ s a) = [out_name s, out_name a]"
| "refs (SecurityGroup _ _ v _ _) = [out_name v]"
| "refs (KeyPair _ _ _) = []"
| "refs (Instance _ _ _ s gs k _) = out_name s # map out_name gs @ [out_name k]"

fun is_Instance :: "resource \<Rightarrow> bool" where
  "is_Instance (Instance _ _ _ _ _ _ _) = True"
| "is_Instance _ = False"

subsection \<open>The statements of the script\<close>

text \<open>Lines 10 and 11.\<close>

definition instance_type :: string where
  "instance_type = ''t3.small''"

definition ami :: string where
  "ami = ''ami-003c463c8207b4dfa''"

text \<open>Lines 15 to 108, each constant named as the Python variable it is bound to.\<close>

definition vpc :: resource where
  "vpc = Vpc ''my-vpc'' ''10.0.0.0/16'' True True"

definition public_subnet :: resource where
  "public_subnet = Subnet ''public-subnet'' (id_of vpc) ''10.0.1.0/24'' True ''ap-southeast-1a''"

definition private_subnet :: resource where
  "private_subnet = Subnet ''private-subnet'' (id_of vpc) ''10.0.2.0/24'' False ''ap-southeast-1a''"

definition igw :: resource where
  "igw = InternetGateway ''internet-gateway'' (id_of vpc)"

definition public_route_table :: resource where
  "public_route_table =
     RouteTable ''public-route-table'' (id_of vpc) [Route ''0.0.0.0/0'' (Some (id_of igw)) None]"

definition public_route_table_association :: resource where
  "public_route_table_association =
     RouteTableAssociation ''public-route-table-association''
       (id_of public_subnet) (id_of public_route_table)"

definition eip :: resource where
  "eip = Eip ''nat-eip'' True"

definition nat_gateway :: resource where
  "nat_gateway = NatGateway ''nat-gateway'' (id_of public_subnet) (id_of eip)"

definition private_route_table :: resource where
  "private_route_table =
     RouteTable ''private-route-table'' (id_of vpc)
       [Route ''0.0.0.0/0'' None (Some (id_of nat_gateway))]"

definition private_route_table_association :: resource where
  "private_route_table_association =
     RouteTableAssociation ''private-route-table-association''
       (id_of private_subnet) (id_of private_route_table)"

definition security_group :: resource where
  "security_group =
     SecurityGroup ''web-secgrp'' ''Enable SSH and K3s access'' (id_of vpc)
       [Rule ''tcp'' 22 22 [''0.0.0.0/0''], Rule ''tcp'' 6443 6443 [''0.0.0.0/0'']]
       [Rule ''-1'' 0 0 [''0.0.0.0/0'']]"

text \<open>Line 111: \<^verbatim>\<open>os.getenv\<close> looks the name up in the environment and gives \<^verbatim>\<open>None\<close>
  when it is not set.\<close>

definition getenv :: "(string \<rightharpoonup> string) \<Rightarrow> string \<Rightarrow> string option" where
  "getenv environ k = environ k"

definition public_key :: "(string \<rightharpoonup> string) \<Rightarrow> string option" where
  "public_key environ = getenv environ ''PUBLIC_KEY''"

text \<open>Lines 114 to 162.\<close>

definition key_pair :: "(string \<rightharpoonup> string) \<Rightarrow> resource" where
  "key_pair environ = KeyPair ''my-key-pair'' ''my-key-pair'' (public_key environ)"

definition master_instance :: "(string \<rightharpoonup> string) \<Rightarrow> resource" where
  "master_instance environ =
     Instance ''master-instance'' instance_type ami (id_of private_subnet)
       [id_of security_group] (key_name_of (key_pair environ)) [(''Name'', ''Master Node'')]"

definition worker_instance_1 :: "(string \<rightharpoonup> string) \<Rightarrow> resource" where
  "worker_instance_1 environ =
     Instance ''worker-instance-1'' instance_type ami (id_of private_subnet)
       [id_of security_group] (key_name_of (key_pair environ)) [(''Name'', ''Worker Node 1'')]"

definition worker_instance_2 :: "(string \<rightharpoonup> string) \<Rightarrow> resource" where
  "worker_instance_2 environ =
     Instance ''worker-instance-2'' instance_type ami (id_of private_subnet)
       [id_of security_group] (key_name_of (key_pair environ)) [(''Name'', ''Worker Node 2'')]"

definition git_runner_instance :: "(string \<rightharpoonup> string) \<Rightarrow> resource" where
  "git_runner_instance environ =
     Instance ''git-runner-instance'' instance_type ami (id_of public_subnet)
       [id_of security_group] (key_name_of (key_pair environ)) [(''Name'', ''Git Runner'')]"

subsection \<open>Running the script\<close>

text \<open>
  What a run has done so far: the resources registered, in the order of their
  constructor calls, and the stack outputs exported, in the order of the export calls.
\<close>

record state =
  resources :: "resource list"
  exports :: "(string \<times> output_ref) list"

definition init :: state where
  "init = \<lparr>resources = [], exports = []\<rparr>"

datatype stmt = Declare resource | Export string output_ref

text \<open>
  The only way a statement of the script can fail is an exception raised inside a
  constructor; the script raises nothing itself. The error carries the logical name of
  the resource whose constructor raised.
\<close>

datatype error = ConstructorRaised string

text \<open>
  The constructors belong to the provider library, which is not part of the repository.
  A constructor sees its own arguments only; whether it accepts them is the parameter
  \<open>acc\<close>. An accepted resource is appended to the registered ones; a rejected one ends the
  run with the state reached before it.
\<close>

fun exec :: "(resource \<Rightarrow> bool) \<Rightarrow> stmt \<Rightarrow> state \<Rightarrow> (error \<times> state) + state" where
  "exec acc (Declare r) s =
     (if acc r then Inr (s\<lparr>resources := resources s @ [r]\<rparr>)
      else Inl (ConstructorRaised (rname r), s))"
| "exec acc (Export k v) s = Inr (s\<lparr>exports := exports s @ [(k, v)]\<rparr>)"

fun run :: "(resource \<Rightarrow> bool) \<Rightarrow> stmt list \<Rightarrow> state \<Rightarrow> (error \<times> state) + state" where
  "run acc [] s = Inr s"
| "run acc (c # cs) s = (case exec acc c s of Inl e \<Rightarrow> Inl e | Inr s' \<Rightarrow> run acc cs s')"

text \<open>The script, top to bottom (lines 15 to 168).\<close>

definition program :: "(string \<rightharpoonup> string) \<Rightarrow> stmt list" where
  "program environ =
    [Declare vpc,
     Declare public_subnet,
     Declare private_subnet,
     Declare igw,
     Declare public_route_table,
     Declare public_route_table_association,
     Declare eip,
     Declare nat_gateway,
     Declare private_route_table,
     Declare private_route_table_association,
     Declare security_group,
     Declare (key_pair environ),
     Declare (master_instance environ),
     Declare (worker_instance_1 environ),
     Declare (worker_instance_2 environ),
     Declare (git_runner_instance environ),
     Export ''git_runner_public_ip'' (public_ip_of (git_runner_instance environ)),
     Export ''master_private_ip'' (private_ip_of (master_instance environ)),
     Export ''worker1_private_ip'' (private_ip_of (worker_instance_1 environ)),
     Export ''worker2_private_ip'' (private_ip_of (worker_instance_2 environ))]"

definition main :: "(resource \<Rightarrow> bool) \<Rightarrow> (string \<rightharpoonup> string) \<Rightarrow> (error \<times> state) + state" where
  "main acc environ = run acc (program environ) init"

text \<open>
  The generated constructors of the provider raise when a required property is \<^verbatim>\<open>None\<close>
  and check nothing else about a string. Of the arguments the script passes, only
  \<^verbatim>\<open>public_key\<close> can be \<^verbatim>\<open>None\<close>. This instance of \<open>acc\<close> is used for concrete runs only.
\<close>

fun required_present :: "resource \<Rightarrow> bool" where
  "required_present (KeyPair _ _ None) = False"
| "required_present _ = True"

text \<open>The state a run ended in, and whether it reached the end of the script.\<close>

fun outcome :: "(error \<times> state) + state \<Rightarrow> state" where
  "outcome (Inl (e, s)) = s"
| "outcome (Inr s) = s"

fun completed :: "(error \<times> state) + state \<Rightarrow> bool" where
  "completed (Inl _) = False"
| "completed (Inr _) = True"

text \<open>The constructor calls and the exports of a list of statements, in order.\<close>

fun declared :: "stmt list \<Rightarrow> resource list" where
  "declared [] = []"
| "declared (Declare r # cs) = r # declared cs"
| "declared (Export _ _ # cs) = declared cs"

fun exported :: "stmt list \<Rightarrow> (string \<times> output_ref) list" where
  "exported [] = []"
| "exported (Declare _ # cs) = exported cs"
| "exported (Export k v # cs) = (k, v) # exported cs"

subsection \<open>Reading the declared resources\<close>

text \<open>The provider class a resource was built with.\<close>

fun class_of :: "resource \<Rightarrow> string" where
  "class_of (Vpc _ _ _ _) = ''Vpc''"
| "class_of (Subnet _ _ _ _ _) = ''Subnet''"
| "class_of (InternetGateway _ _) = ''InternetGateway''"
| "class_of (RouteTable _ _ _) = ''RouteTable''"
| "class_of (RouteTableAssociation _ _ _) = ''RouteTableAssociation''"
| "class_of (Eip _ _) = ''Eip''"
| "class_of (NatGateway _ _ _) = ''NatGateway''"
| "class_of (SecurityGroup _ _ _ _ _) = ''SecurityGroup''"
| "class_of (KeyPair _ _ _) = ''KeyPair''"
| "class_of (Instance _ _ _ _ _ _ _) = ''Instance''"

text \<open>The resource an output reference points to: the first one registered under the name.\<close>

definition resolve_ref :: "resource list \<Rightarrow> output_ref \<Rightarrow> resource option" where
  "resolve_ref rs x = find (\<lambda>r. rname r = out_name x) rs"


text \<open>
  What a security-group rule lets through: traffic of its protocol to a port of its
  range; the protocol \<^verbatim>\<open>"-1"\<close> stands for every protocol and every port.
\<close>

fun rule_admits :: "sg_rule \<Rightarrow> string \<Rightarrow> int \<Rightarrow> bool" where
  "rule_admits (Rule p f t _) proto port = (p = ''-1'' \<or> (p = proto \<and> f \<le> port \<and> port \<le> t))"

fun rule_sources :: "sg_rule \<Rightarrow> string list" where
  "rule_sources (Rule _ _ _ cs) = cs"

definition admits :: "sg_rule list \<Rightarrow> string \<Rightarrow> int \<Rightarrow> bool" where
  "admits rules proto port = list_ex (\<lambda>r. rule_admits r proto port) rules"

subsection \<open>CIDR notation\<close>









subsection \<open>Order of declaration\<close>

text \<open>
  A check along a list of resources: \<open>P\<close> holds of every resource and the resources
  declared before it.
\<close>

fun ordered_from :: "(resource list \<Rightarrow> resource \<Rightarrow> bool) \<Rightarrow> resource list \<Rightarrow> resource list \<Rightarrow> bool" where
  "ordered_from P seen [] = True"
| "ordered_from P seen (r # rs) = (P seen r \<and> ordered_from P (seen @ [r]) rs)"

section \<open>Properties of a run\<close>

subsection \<open>What a run registers\<close>

text \<open>
  A run that reaches the end has registered every constructor call of the script, in
  order, and exported every output; every constructor accepted its arguments. A run
  that stops has stopped at a constructor that raised, with the calls before it
  registered.
\<close>

lemma run_Inr:
  "run acc p s = Inr s' \<Longrightarrow>
     resources s' = resources s @ declared p \<and> exports s' = exports s @ exported p"
proof (induction p arbitrary: s)
  case Nil
  then show ?case by simp
next
  case (Cons c cs)
  then show ?case
    by (cases c) (auto split: if_splits)
qed

lemma run_Inr_accepted: "run acc p s = Inr s' \<Longrightarrow> r \<in> set (declared p) \<Longrightarrow> acc r"
proof (induction p arbitrary: s)
  case Nil
  then show ?case by simp
next
  case (Cons c cs)
  then show ?case
    by (cases c) (auto split: if_splits)
qed

lemma run_accepted:
  "(\<forall>r\<in>set (declared p). acc r) \<Longrightarrow> \<exists>s'. run acc p s = Inr s'"
proof (induction p arbitrary: s)
  case Nil
  then show ?case by simp
next
  case (Cons c cs)
  then show ?case
    by (cases c) auto
qed


lemma run_Inl:
  "run acc p s = Inl (e, s') \<Longrightarrow>
     \<exists>pre r post. p = pre @ Declare r # post \<and> \<not> acc r \<and> e = ConstructorRaised (rname r)
        \<and> resources s' = resources s @ declared pre \<and> exports s' = exports s @ exported pre"
proof (induction p arbitrary: s)
  case Nil
  then show ?case by simp
next
  case (Cons c cs)
  show ?case
  proof (cases "exec acc c s")
    case (Inl x)
    with Cons.prems obtain r where c: "c = Declare r" and "\<not> acc r" and "x = (ConstructorRaised (rname r), s)"
      by (cases c) (auto split: if_splits)
    with Cons.prems Inl have "c # cs = [] @ Declare r # cs \<and> \<not> acc r \<and> e = ConstructorRaised (rname r)
        \<and> resources s' = resources s @ declared [] \<and> exports s' = exports s @ exported []"
      by auto
    then show ?thesis by blast
  next
    case (Inr t)
    with Cons.prems have "run acc cs t = Inl (e, s')" by simp
    from Cons.IH[OF this] obtain pre r post where
      h: "cs = pre @ Declare r # post" "\<not> acc r" "e = ConstructorRaised (rname r)"
         "resources s' = resources t @ declared pre" "exports s' = exports t @ exported pre"
      by blast
    from Inr have t: "resources t = resources s @ declared [c]" "exports t = exports s @ exported [c]"
      by (cases c; auto split: if_splits)+
    have d: "declared (c # pre) = declared [c] @ declared pre" "exported (c # pre) = exported [c] @ exported pre"
      by (cases c; simp)+
    have "c # cs = (c # pre) @ Declare r # post \<and> \<not> acc r \<and> e = ConstructorRaised (rname r)
        \<and> resources s' = resources s @ declared (c # pre) \<and> exports s' = exports s @ exported (c # pre)"
      using h t d by simp
    then show ?thesis by blast
  qed
qed

lemma declared_program:
  "declared (program environ) =
     [vpc, public_subnet, private_subnet, igw, public_route_table,
      public_route_table_association, eip, nat_gateway, private_route_table,
      private_route_table_association, security_group, key_pair environ,
      master_instance environ, worker_instance_1 environ, worker_instance_2 environ,
      git_runner_instance environ]"
  by (simp add: program_def)

lemma exported_program:
  "exported (program environ) =
     [(''git_runner_public_ip'', public_ip_of (git_runner_instance environ)),
      (''master_private_ip'', private_ip_of (master_instance environ)),
      (''worker1_private_ip'', private_ip_of (worker_instance_1 environ)),
      (''worker2_private_ip'', private_ip_of (worker_instance_2 environ))]"
  by (simp add: program_def)

lemma main_Inr:
  "main acc environ = Inr s \<Longrightarrow>
     resources s = declared (program environ) \<and> exports s = exported (program environ)"
  using run_Inr[of acc "program environ" init s] by (simp add: main_def init_def)

lemmas resource_defs =
  vpc_def public_subnet_def private_subnet_def igw_def public_route_table_def
  public_route_table_association_def eip_def nat_gateway_def private_route_table_def
  private_route_table_association_def security_group_def key_pair_def master_instance_def
  worker_instance_1_def worker_instance_2_def git_runner_instance_def
  id_of_def key_name_of_def public_ip_of_def private_ip_of_def

lemma main_required_present:
  "environ ''PUBLIC_KEY'' = Some k \<Longrightarrow>
     main required_present environ =
       Inr \<lparr>resources = declared (program environ), exports = exported (program environ)\<rparr>"
  by (simp add: main_def init_def program_def resource_defs public_key_def getenv_def)

lemma ordered_from_nth:
  "ordered_from P seen rs \<Longrightarrow> i < length rs \<Longrightarrow> P (seen @ take i rs) (rs ! i)"
proof (induction rs arbitrary: seen i)
  case Nil
  then show ?case by simp
next
  case (Cons r rs)
  show ?case
  proof (cases i)
    case 0
    with Cons.prems show ?thesis by simp
  next
    case (Suc j)
    with Cons.prems have "ordered_from P (seen @ [r]) rs" and "j < length rs" by simp_all
    from Cons.IH[OF this] Suc show ?thesis by simp
  qed
qed










subsection \<open>The instances\<close>

text \<open>
  Claim C2, as the code has it: a run that reaches the end of the script has declared
  exactly four instances, in this order: the master, the two workers and the git
  runner. (The claim counts five.)
\<close>

theorem four_instances:
  "main acc environ = Inr s \<Longrightarrow>
     map rname (filter is_Instance (resources s)) =
       [''master-instance'', ''worker-instance-1'', ''worker-instance-2'', ''git-runner-instance'']
     \<and> length (filter is_Instance (resources s)) = 4"
  by (drule main_Inr) (simp add: declared_program resource_defs)

theorem four_instances_witness:
  "completed (main required_present [''PUBLIC_KEY'' \<mapsto> ''ssh-rsa AAAA''])
   \<and> map rname (filter is_Instance
        (resources (outcome (main required_present [''PUBLIC_KEY'' \<mapsto> ''ssh-rsa AAAA''])))) =
       [''master-instance'', ''worker-instance-1'', ''worker-instance-2'', ''git-runner-instance'']
   \<and> length (filter is_Instance
        (resources (outcome (main required_present [''PUBLIC_KEY'' \<mapsto> ''ssh-rsa AAAA''])))) = 4"
proof -
  let ?E = "[''PUBLIC_KEY'' \<mapsto> ''ssh-rsa AAAA'']"
  have h: "main required_present ?E =
      Inr \<lparr>resources = declared (program ?E), exports = exported (program ?E)\<rparr>"
    by (rule main_required_present) simp
  from four_instances [OF h] h show ?thesis by simp
qed

text \<open>The count of claim C2 fails on a run with a key in the environment.\<close>

theorem five_instances_counterexample:
  "completed (main required_present [''PUBLIC_KEY'' \<mapsto> ''ssh-rsa AAAA''])
   \<and> length (filter is_Instance
        (resources (outcome (main required_present [''PUBLIC_KEY'' \<mapsto> ''ssh-rsa AAAA''])))) \<noteq> 5"
proof -
  let ?E = "[''PUBLIC_KEY'' \<mapsto> ''ssh-rsa AAAA'']"
  have h: "main required_present ?E =
      Inr \<lparr>resources = declared (program ?E), exports = exported (program ?E)\<rparr>"
    by (rule main_required_present) simp
  show ?thesis unfolding h by (simp add: declared_program resource_defs)
qed

subsection \<open>The key pair\<close>




subsection \<open>The order of the declarations\<close>

text \<open>
  Claim C3. In the list of resources in declaration order, every name a resource refers
  to is the name of a resource declared before it. The network is first, the four
  instances are last, and each instance comes after a subnet, a security group and a
  key pair of the names it refers to.
\<close>

theorem references_declared_before:
  "main acc environ = Inr s \<Longrightarrow>
     (\<forall>i<length (resources s). \<forall>n\<in>set (refs (resources s ! i)).
         n \<in> rname ` set (take i (resources s)))
   \<and> resources s ! 0 = Vpc ''my-vpc'' ''10.0.0.0/16'' True True
   \<and> resources s = filter (\<lambda>r. \<not> is_Instance r) (resources s) @ filter is_Instance (resources s)
   \<and> length (filter is_Instance (resources s)) = 4
   \<and> (\<forall>i<length (resources s). \<forall>n t a sub gs k tg.
         resources s ! i = Instance n t a sub gs k tg \<longrightarrow>
           (\<exists>r\<in>set (take i (resources s)). class_of r = ''Subnet'' \<and> rname r = out_name sub)
         \<and> (\<forall>g\<in>set gs. \<exists>r\<in>set (take i (resources s)).
               class_of r = ''SecurityGroup'' \<and> rname r = out_name g)
         \<and> (\<exists>r\<in>set (take i (resources s)). class_of r = ''KeyPair'' \<and> rname r = out_name k))"
proof -
  assume run: "main acc environ = Inr s"
  let ?rs = "declared (program environ)"
  let ?P = "\<lambda>seen r. \<forall>n\<in>set (refs r). n \<in> rname ` set seen"
  let ?Q = "\<lambda>seen r. \<forall>n t a sub gs k tg. r = Instance n t a sub gs k tg \<longrightarrow>
           (\<exists>x\<in>set seen. class_of x = ''Subnet'' \<and> rname x = out_name sub)
         \<and> (\<forall>g\<in>set gs. \<exists>x\<in>set seen. class_of x = ''SecurityGroup'' \<and> rname x = out_name g)
         \<and> (\<exists>x\<in>set seen. class_of x = ''KeyPair'' \<and> rname x = out_name k)"
  from main_Inr[OF run] have rs: "resources s = ?rs" by simp
  have "ordered_from ?P [] ?rs"
    by (simp add: declared_program resource_defs)
  then have p: "\<forall>i<length ?rs. ?P (take i ?rs) (?rs ! i)"
    using ordered_from_nth[of ?P "[]" ?rs] by simp
  have "ordered_from ?Q [] ?rs"
    by (simp add: declared_program resource_defs)
  then have q: "\<forall>i<length ?rs. ?Q (take i ?rs) (?rs ! i)"
    using ordered_from_nth[of ?Q "[]" ?rs] by simp
  have first: "?rs ! 0 = Vpc ''my-vpc'' ''10.0.0.0/16'' True True"
    by (simp add: declared_program vpc_def)
  have last: "?rs = filter (\<lambda>r. \<not> is_Instance r) ?rs @ filter is_Instance ?rs"
    by (simp add: declared_program resource_defs)
  have four: "length (filter is_Instance ?rs) = 4"
    by (simp add: declared_program resource_defs)
  from p q first last four show ?thesis unfolding rs by blast
qed

theorem references_declared_before_witness:
  "completed (main required_present [''PUBLIC_KEY'' \<mapsto> ''ssh-rsa AAAA''])
   \<and> resources (outcome (main required_present [''PUBLIC_KEY'' \<mapsto> ''ssh-rsa AAAA''])) ! 0
       = Vpc ''my-vpc'' ''10.0.0.0/16'' True True
   \<and> set (refs (resources (outcome (main required_present [''PUBLIC_KEY'' \<mapsto> ''ssh-rsa AAAA''])) ! 15))
       \<subseteq> rname ` set (take 15
            (resources (outcome (main required_present [''PUBLIC_KEY'' \<mapsto> ''ssh-rsa AAAA'']))))"
proof -
  let ?E = "[''PUBLIC_KEY'' \<mapsto> ''ssh-rsa AAAA'']"
  let ?S = "\<lparr>resources = declared (program ?E), exports = exported (program ?E)\<rparr>"
  have h: "main required_present ?E = Inr ?S"
    by (rule main_required_present) simp
  have l: "(15::nat) < length (resources ?S)"
    by (simp add: declared_program)
  from references_declared_before [OF h] l
  have "\<forall>n\<in>set (refs (resources ?S ! 15)). n \<in> rname ` set (take 15 (resources ?S))"
    and "resources ?S ! 0 = Vpc ''my-vpc'' ''10.0.0.0/16'' True True"
    by blast+
  with h show ?thesis by auto
qed

subsection \<open>The subnets\<close>




subsection \<open>The NAT gateway\<close>




subsection \<open>The route tables\<close>




subsection \<open>The security group\<close>

text \<open>
  Claim C8. A run that reaches the end has declared one security group. Its ingress
  rules let through TCP to port 22 and TCP to port 6443 and nothing else, and each rule
  names the one source \<^verbatim>\<open>0.0.0.0/0\<close>.
\<close>

theorem ingress_ssh_and_k3s_only:
  "main acc environ = Inr s \<Longrightarrow>
     filter (\<lambda>r. class_of r = ''SecurityGroup'') (resources s) =
       [SecurityGroup ''web-secgrp'' ''Enable SSH and K3s access'' (Out ''my-vpc'' ''id'')
          [Rule ''tcp'' 22 22 [''0.0.0.0/0''], Rule ''tcp'' 6443 6443 [''0.0.0.0/0'']]
          [Rule ''-1'' 0 0 [''0.0.0.0/0'']]]
   \<and> (\<forall>n d v ing eg. SecurityGroup n d v ing eg \<in> set (resources s) \<longrightarrow>
         (\<forall>proto port. admits ing proto port \<longleftrightarrow> proto = ''tcp'' \<and> (port = 22 \<or> port = 6443))
       \<and> (\<forall>r\<in>set ing. rule_sources r = [''0.0.0.0/0'']))"
proof -
  assume run: "main acc environ = Inr s"
  from main_Inr[OF run] have rs: "resources s = declared (program environ)" by simp
  have a: "filter (\<lambda>r. class_of r = ''SecurityGroup'') (resources s) =
       [SecurityGroup ''web-secgrp'' ''Enable SSH and K3s access'' (Out ''my-vpc'' ''id'')
          [Rule ''tcp'' 22 22 [''0.0.0.0/0''], Rule ''tcp'' 6443 6443 [''0.0.0.0/0'']]
          [Rule ''-1'' 0 0 [''0.0.0.0/0'']]]"
    unfolding rs by (simp add: declared_program resource_defs)
  have b: "\<forall>n d v ing eg. SecurityGroup n d v ing eg \<in> set (resources s) \<longrightarrow>
         (\<forall>proto port. admits ing proto port \<longleftrightarrow> proto = ''tcp'' \<and> (port = 22 \<or> port = 6443))
       \<and> (\<forall>r\<in>set ing. rule_sources r = [''0.0.0.0/0''])"
    unfolding rs by (auto simp add: declared_program resource_defs admits_def)
  from a b show ?thesis by blast
qed

theorem ingress_ssh_and_k3s_only_witness:
  "completed (main required_present [''PUBLIC_KEY'' \<mapsto> ''ssh-rsa AAAA''])
   \<and> security_group
       \<in> set (resources (outcome (main required_present [''PUBLIC_KEY'' \<mapsto> ''ssh-rsa AAAA''])))
   \<and> admits [Rule ''tcp'' 22 22 [''0.0.0.0/0''], Rule ''tcp'' 6443 6443 [''0.0.0.0/0'']] ''tcp'' 22
   \<and> admits [Rule ''tcp'' 22 22 [''0.0.0.0/0''], Rule ''tcp'' 6443 6443 [''0.0.0.0/0'']] ''tcp'' 6443
   \<and> \<not> admits [Rule ''tcp'' 22 22 [''0.0.0.0/0''], Rule ''tcp'' 6443 6443 [''0.0.0.0/0'']] ''tcp'' 80
   \<and> \<not> admits [Rule ''tcp'' 22 22 [''0.0.0.0/0''], Rule ''tcp'' 6443 6443 [''0.0.0.0/0'']] ''udp'' 22"
proof -
  let ?E = "[''PUBLIC_KEY'' \<mapsto> ''ssh-rsa AAAA'']"
  let ?S = "\<lparr>resources = declared (program ?E), exports = exported (program ?E)\<rparr>"
  let ?ing = "[Rule ''tcp'' 22 22 [''0.0.0.0/0''], Rule ''tcp'' 6443 6443 [''0.0.0.0/0'']]"
  have h: "main required_present ?E = Inr ?S"
    by (rule main_required_present) simp
  have m: "SecurityGroup ''web-secgrp'' ''Enable SSH and K3s access'' (id_of vpc) ?ing
       [Rule ''-1'' 0 0 [''0.0.0.0/0'']] \<in> set (resources ?S)"
    by (simp add: declared_program security_group_def)
  from ingress_ssh_and_k3s_only [OF h] m
  have all: "\<forall>proto port. admits ?ing proto port \<longleftrightarrow> proto = ''tcp'' \<and> (port = 22 \<or> port = 6443)"
    by blast
  have "admits ?ing ''tcp'' 22" "admits ?ing ''tcp'' 6443"
       "\<not> admits ?ing ''tcp'' 80" "\<not> admits ?ing ''udp'' 22"
    by (simp_all add: all)
  with m show ?thesis unfolding h by (simp add: security_group_def)
qed

subsection \<open>The outputs\<close>

text \<open>
  Claim C9. A run that reaches the end has exported exactly four outputs, in this
  order: \<^verbatim>\<open>git_runner_public_ip\<close>, the \<^verbatim>\<open>public_ip\<close> of the git runner's instance, and
  \<^verbatim>\<open>master_private_ip\<close>, \<^verbatim>\<open>worker1_private_ip\<close> and \<^verbatim>\<open>worker2_private_ip\<close>, the
  \<^verbatim>\<open>private_ip\<close> of the master's and of each worker's instance.
\<close>

theorem four_outputs:
  "main acc environ = Inr s \<Longrightarrow>
     exports s =
       [(''git_runner_public_ip'', Out ''git-runner-instance'' ''public_ip''),
        (''master_private_ip'', Out ''master-instance'' ''private_ip''),
        (''worker1_private_ip'', Out ''worker-instance-1'' ''private_ip''),
        (''worker2_private_ip'', Out ''worker-instance-2'' ''private_ip'')]
   \<and> resolve_ref (resources s) (Out ''git-runner-instance'' ''public_ip'') =
       Some (git_runner_instance environ)
   \<and> resolve_ref (resources s) (Out ''master-instance'' ''private_ip'') =
       Some (master_instance environ)
   \<and> resolve_ref (resources s) (Out ''worker-instance-1'' ''private_ip'') =
       Some (worker_instance_1 environ)
   \<and> resolve_ref (resources s) (Out ''worker-instance-2'' ''private_ip'') =
       Some (worker_instance_2 environ)
   \<and> is_Instance (git_runner_instance environ) \<and> is_Instance (master_instance environ)
   \<and> is_Instance (worker_instance_1 environ) \<and> is_Instance (worker_instance_2 environ)"
  by (drule main_Inr)
     (simp add: declared_program exported_program resource_defs resolve_ref_def)

theorem four_outputs_witness:
  "completed (main required_present [''PUBLIC_KEY'' \<mapsto> ''ssh-rsa AAAA''])
   \<and> map fst (exports (outcome (main required_present [''PUBLIC_KEY'' \<mapsto> ''ssh-rsa AAAA'']))) =
       [''git_runner_public_ip'', ''master_private_ip'', ''worker1_private_ip'',
        ''worker2_private_ip'']"
proof -
  let ?E = "[''PUBLIC_KEY'' \<mapsto> ''ssh-rsa AAAA'']"
  have h: "main required_present ?E =
      Inr \<lparr>resources = declared (program ?E), exports = exported (program ?E)\<rparr>"
    by (rule main_required_present) simp
  from four_outputs [OF h] show ?thesis unfolding h by simp
qed

subsection \<open>Where the instances are placed\<close>

text \<open>
  Claim C10. Of the four instances, the git runner's is in the public subnet and the
  master's and the two workers' are in the private subnet, whose
  \<^verbatim>\<open>map_public_ip_on_launch\<close> is not set. All four have the same instance type and
  image, the one security group and the one key pair of the script.
\<close>

theorem instances_placement:
  "main acc environ = Inr s \<Longrightarrow>
     (\<forall>n t a sub gs k tg. Instance n t a sub gs k tg \<in> set (resources s) \<longrightarrow>
        t = ''t3.small'' \<and> a = ''ami-003c463c8207b4dfa''
      \<and> gs = [Out ''web-secgrp'' ''id''] \<and> k = Out ''my-key-pair'' ''key_name''
      \<and> (if n = ''git-runner-instance''
          then resolve_ref (resources s) sub =
            Some (Subnet ''public-subnet'' (Out ''my-vpc'' ''id'') ''10.0.1.0/24'' True
                    ''ap-southeast-1a'')
          else n \<in> {''master-instance'', ''worker-instance-1'', ''worker-instance-2''}
             \<and> resolve_ref (resources s) sub =
                 Some (Subnet ''private-subnet'' (Out ''my-vpc'' ''id'') ''10.0.2.0/24'' False
                         ''ap-southeast-1a'')))
   \<and> map rname (filter is_Instance (resources s)) =
       [''master-instance'', ''worker-instance-1'', ''worker-instance-2'', ''git-runner-instance'']
   \<and> map rname (filter (\<lambda>r. class_of r = ''SecurityGroup'') (resources s)) = [''web-secgrp'']
   \<and> map rname (filter (\<lambda>r. class_of r = ''KeyPair'') (resources s)) = [''my-key-pair'']"
proof -
  assume run: "main acc environ = Inr s"
  from main_Inr[OF run] have rs: "resources s = declared (program environ)" by simp
  have a: "\<forall>n t a sub gs k tg. Instance n t a sub gs k tg \<in> set (resources s) \<longrightarrow>
        t = ''t3.small'' \<and> a = ''ami-003c463c8207b4dfa''
      \<and> gs = [Out ''web-secgrp'' ''id''] \<and> k = Out ''my-key-pair'' ''key_name''
      \<and> (if n = ''git-runner-instance''
          then resolve_ref (resources s) sub =
            Some (Subnet ''public-subnet'' (Out ''my-vpc'' ''id'') ''10.0.1.0/24'' True
                    ''ap-southeast-1a'')
          else n \<in> {''master-instance'', ''worker-instance-1'', ''worker-instance-2''}
             \<and> resolve_ref (resources s) sub =
                 Some (Subnet ''private-subnet'' (Out ''my-vpc'' ''id'') ''10.0.2.0/24'' False
                         ''ap-southeast-1a''))"
    unfolding rs
    by (auto simp add: declared_program resource_defs resolve_ref_def instance_type_def ami_def)
  have b: "map rname (filter is_Instance (resources s)) =
       [''master-instance'', ''worker-instance-1'', ''worker-instance-2'', ''git-runner-instance'']"
    unfolding rs by (simp add: declared_program resource_defs)
  have c: "map rname (filter (\<lambda>r. class_of r = ''SecurityGroup'') (resources s)) = [''web-secgrp'']"
    unfolding rs by (simp add: declared_program resource_defs)
  have d: "map rname (filter (\<lambda>r. class_of r = ''KeyPair'') (resources s)) = [''my-key-pair'']"
    unfolding rs by (simp add: declared_program resource_defs)
  from a b c d show ?thesis by blast
qed

theorem instances_placement_witness:
  "completed (main required_present [''PUBLIC_KEY'' \<mapsto> ''ssh-rsa AAAA''])
   \<and> master_instance [''PUBLIC_KEY'' \<mapsto> ''ssh-rsa AAAA'']
       \<in> set (resources (outcome (main required_present [''PUBLIC_KEY'' \<mapsto> ''ssh-rsa AAAA''])))
   \<and> resolve_ref (resources (outcome (main required_present [''PUBLIC_KEY'' \<mapsto> ''ssh-rsa AAAA''])))
       (id_of private_subnet) =
     Some (Subnet ''private-subnet'' (Out ''my-vpc'' ''id'') ''10.0.2.0/24'' False ''ap-southeast-1a'')"
proof -
  let ?E = "[''PUBLIC_KEY'' \<mapsto> ''ssh-rsa AAAA'']"
  let ?S = "\<lparr>resources = declared (program ?E), exports = exported (program ?E)\<rparr>"
  have h: "main required_present ?E = Inr ?S"
    by (rule main_required_present) simp
  have m: "Instance ''master-instance'' instance_type ami (id_of private_subnet)
       [id_of security_group] (key_name_of (key_pair ?E)) [(''Name'', ''Master Node'')]
       \<in> set (resources ?S)"
    by (simp add: declared_program master_instance_def)
  from instances_placement [OF h] m
  have "if ''master-instance'' = ''git-runner-instance''
          then resolve_ref (resources ?S) (id_of private_subnet) =
            Some (Subnet ''public-subnet'' (Out ''my-vpc'' ''id'') ''10.0.1.0/24'' True
                    ''ap-southeast-1a'')
          else ''master-instance'' \<in> {''master-instance'', ''worker-instance-1'', ''worker-instance-2''}
             \<and> resolve_ref (resources ?S) (id_of private_subnet) =
                 Some (Subnet ''private-subnet'' (Out ''my-vpc'' ''id'') ''10.0.2.0/24'' False
                         ''ap-southeast-1a'')"
    by blast
  then have "resolve_ref (resources ?S) (id_of private_subnet) =
     Some (Subnet ''private-subnet'' (Out ''my-vpc'' ''id'') ''10.0.2.0/24'' False ''ap-southeast-1a'')"
    by simp
  with m show ?thesis unfolding h by (simp add: master_instance_def)
qed

end
